theory Spec2Isabelle
  imports Complex_Main "HOL-Library.Multiset"
begin

section \<open>The search engine of \<open>search/core.py\<close>\<close>

text \<open>
  A shallow embedding of \<open>SearchEngine\<close> (\<open>src/search/core.py\<close>).

  \<^item> A dataset object is the map from its attribute names to their text values;
    \<open>getattr\<close> on a name outside the map raises \<open>AttributeError\<close>.
  \<^item> Python numbers (similarity scores, thresholds, weights, ratings) are \<open>real\<close>;
    \<open>limit\<close> is an \<open>int\<close>.
  \<^item> An argument that may be \<open>None\<close> is an \<open>option\<close>; Python's \<open>x or y\<close> is written out
    per type, with Python's truth value of \<open>x\<close> (\<open>None\<close>, \<open>0\<close>, \<open>0.0\<close> and the empty list
    are false).
  \<^item> Every \<open>raise\<close> is an \<open>Inl\<close> of the result type \<open>error + 'a\<close>.
  \<^item> The modules \<open>search.utils\<close>, \<open>search.config\<close> and \<open>search.matchers\<close> are not part of
    the sources at hand. \<open>utils.tokenize\<close>, \<open>utils.generate_weights\<close> and
    \<open>utils.generate_weights_from_matches\<close> are parameters (the record \<open>utils\<close>), the
    matcher is a parameter as it is in the source, and \<open>utils.normalize\<close> is modelled
    from the specification.
\<close>

subsection \<open>Data\<close>

datatype error = ValueError string | AttributeError string | KeyError string

type_synonym obj = "string \<rightharpoonup> string"

type_synonym matcher_fn = "string \<Rightarrow> string \<Rightarrow> real"

text \<open>The dictionary built by \<open>create_result\<close>: keys \<open>data\<close>, \<open>match\<close>, \<open>rating\<close>, \<open>attr\<close>.\<close>

record result =
  data :: obj
  match :: real
  rating :: real
  attr :: string

definition create_result :: "obj \<Rightarrow> real \<Rightarrow> real \<Rightarrow> string \<Rightarrow> result" where
  "create_result ob mt score a = \<lparr>data = ob, match = mt, rating = score, attr = a\<rparr>"

text \<open>The fields of a \<open>SearchEngine\<close> instance (\<open>self.attributes\<close>, ...).\<close>

record engine =
  self_attributes :: "string list option"
  self_limit :: int
  self_threshold :: real
  self_weights :: "real list option"
  self_matcher :: matcher_fn

text \<open>The functions of \<open>search.utils\<close> that the engine calls and whose code is absent.\<close>

record utils =
  tokenize :: "string \<Rightarrow> string list"
  generate_weights :: "string list \<Rightarrow> real list"
  generate_weights_from_matches :: "result list \<Rightarrow> (string \<rightharpoonup> real)"

text \<open>The local variables of \<open>search\<close> after lines 120 to 124.\<close>

record settings =
  attributes :: "string list option"
  weights :: "real list option"
  limit :: int
  threshold :: real
  matcher :: matcher_fn

subsection \<open>Python's truth values and \<open>or\<close>\<close>

definition truthy :: "'a list option \<Rightarrow> bool" where
  "truthy x = (case x of None \<Rightarrow> False | Some xs \<Rightarrow> xs \<noteq> [])"

definition py_or_list :: "'a list option \<Rightarrow> 'a list option \<Rightarrow> 'a list option" where
  "py_or_list x y = (if truthy x then x else y)"

definition py_or_num :: "'a::zero option \<Rightarrow> 'a \<Rightarrow> 'a" where
  "py_or_num x y = (case x of None \<Rightarrow> y | Some v \<Rightarrow> if v = 0 then y else v)"

text \<open>A function object is always true.\<close>

definition py_or_fun :: "'a option \<Rightarrow> 'a \<Rightarrow> 'a" where
  "py_or_fun x y = (case x of None \<Rightarrow> y | Some f \<Rightarrow> f)"

subsection \<open>Collaborators\<close>

definition getattr :: "obj \<Rightarrow> string \<Rightarrow> error + string" where
  "getattr ob a = (case ob a of None \<Rightarrow> Inl (AttributeError a) | Some v \<Rightarrow> Inr v)"

text \<open>
  Modelled from the spec: \<open>utils.normalize\<close> is not under the sources. The specification
  (4.2 and 7): divide each value by the sum of all values; when the sum is 0 return the
  uniform distribution \<open>1/n\<close>.
\<close>

definition normalize_weights :: "real list \<Rightarrow> real list" where
  "normalize_weights vs =
     (if sum_list vs = 0 then map (\<lambda>v. 1 / real (length vs)) vs
      else map (\<lambda>v. v / sum_list vs) vs)"

subsection \<open>\<open>SearchEngine.__init__\<close>\<close>

definition init ::
  "utils \<Rightarrow> string list option \<Rightarrow> int \<Rightarrow> real \<Rightarrow> real list option \<Rightarrow> matcher_fn \<Rightarrow> engine" where
  "init U attributes' limit' threshold' weights' matcher' =
     \<lparr>self_attributes = attributes',
      self_limit = limit',
      self_threshold = threshold',
      self_weights =
        (if truthy attributes' then
           (if \<not> truthy weights' \<or> length (the attributes') \<noteq> length (the weights')
            then Some (generate_weights U (the attributes'))
            else weights')
         else weights'),
      self_matcher = matcher'\<rparr>"

subsection \<open>\<open>SearchEngine.select_results\<close>\<close>

text \<open>
  \<open>matches.sort(key=lambda m: m['rating'], reverse=True)\<close>: Python's sort is stable, also
  with \<open>reverse=True\<close>; it is the stable sort by descending rating.
\<close>

definition sort_matches :: "result list \<Rightarrow> result list" where
  "sort_matches matches = sort_key (\<lambda>m. - rating m) matches"

definition select_results :: "result list \<Rightarrow> real \<Rightarrow> int \<Rightarrow> obj list" where
  "select_results matches threshold' limit' =
     map data (if limit' > 0 then take (nat limit') (sort_matches matches)
               else sort_matches matches)"

subsection \<open>\<open>SearchEngine.search\<close>\<close>

text \<open>Lines 120 to 124.\<close>

definition resolve ::
  "engine \<Rightarrow> string list option \<Rightarrow> int option \<Rightarrow> real option \<Rightarrow> real list option \<Rightarrow>
   matcher_fn option \<Rightarrow> settings" where
  "resolve self attributes' limit' threshold' weights' matcher' =
     \<lparr>attributes = py_or_list attributes' (self_attributes self),
      weights = py_or_list weights' (self_weights self),
      limit = py_or_num limit' (self_limit self),
      threshold = py_or_num threshold' (self_threshold self),
      matcher = py_or_fun matcher' (self_matcher self)\<rparr>"

text \<open>Lines 141 to 146: the loop of the single-attribute path.\<close>

fun single_matches ::
  "matcher_fn \<Rightarrow> string \<Rightarrow> real \<Rightarrow> string \<Rightarrow> obj list \<Rightarrow> error + result list" where
  "single_matches m query thr attr_name [] = Inr []"
| "single_matches m query thr attr_name (ob # dataset) =
     (case getattr ob attr_name of
        Inl e \<Rightarrow> Inl e
      | Inr v \<Rightarrow>
          (case single_matches m query thr attr_name dataset of
             Inl e \<Rightarrow> Inl e
           | Inr matches \<Rightarrow>
               Inr (if m query v \<ge> thr
                    then create_result ob (m query v) (m query v) attr_name # matches
                    else matches)))"

text \<open>Lines 151 to 157: the weights of the multi-attribute path.\<close>

definition ramp :: "nat \<Rightarrow> real list" where
  "ramp n = map real (rev [1..<Suc n])"

definition default_weights :: "string list \<Rightarrow> real list option \<Rightarrow> real list" where
  "default_weights attrs ws =
     (if \<not> truthy ws \<or> length (the ws) \<noteq> length attrs then ramp (length attrs)
      else the ws)"

text \<open>\<open>dict(zip(attributes, weights))\<close>: a later pair replaces an earlier one of the same key.\<close>

definition weights_dict :: "string list \<Rightarrow> real list option \<Rightarrow> (string \<rightharpoonup> real)" where
  "weights_dict attrs ws =
     map_of (rev (zip attrs (normalize_weights (default_weights attrs ws))))"

text \<open>Lines 160 to 168: the inner loop, one pair \<open>(attr, match)\<close> for each non-empty value.\<close>

fun partial_matches ::
  "matcher_fn \<Rightarrow> string \<Rightarrow> obj \<Rightarrow> string list \<Rightarrow> error + (string \<times> real) list" where
  "partial_matches m query ob [] = Inr []"
| "partial_matches m query ob (a # attrs) =
     (case getattr ob a of
        Inl e \<Rightarrow> Inl e
      | Inr attrval \<Rightarrow>
          (case partial_matches m query ob attrs of
             Inl e \<Rightarrow> Inl e
           | Inr ps \<Rightarrow> Inr (if length attrval = 0 then ps else (a, m query attrval) # ps)))"

text \<open>
  \<open>max(partial_matches, key=lambda m: m['match'])\<close>: the first element of greatest key
  (a later element replaces the best one only when its key is strictly greater);
  \<open>ValueError\<close> on the empty list.
\<close>

fun max_match :: "(string \<times> real) list \<Rightarrow> error + (string \<times> real)" where
  "max_match [] = Inl (ValueError ''max() arg is an empty sequence'')"
| "max_match (p # ps) = Inr (fold (\<lambda>x best. if snd x > snd best then x else best) ps p)"

text \<open>Lines 172 to 183: the candidate of one object, if any.\<close>

definition score_obj ::
  "matcher_fn \<Rightarrow> string \<Rightarrow> real \<Rightarrow> (string \<rightharpoonup> real) \<Rightarrow> string list \<Rightarrow> obj \<Rightarrow>
   error + result option" where
  "score_obj m query thr wd attrs ob =
     (case partial_matches m query ob attrs of
        Inl e \<Rightarrow> Inl e
      | Inr ps \<Rightarrow>
          (case max_match ps of
             Inl e \<Rightarrow> Inl e
           | Inr (a, val) \<Rightarrow>
               if val \<ge> thr then
                 (case wd a of
                    None \<Rightarrow> Inl (KeyError a)
                  | Some w \<Rightarrow>
                      Inr (Some (create_result ob val (val + sum_list (map snd ps) + w) a)))
               else Inr None))"

text \<open>Lines 159 to 183: the loop over the dataset.\<close>

fun multi_matches ::
  "matcher_fn \<Rightarrow> string \<Rightarrow> real \<Rightarrow> (string \<rightharpoonup> real) \<Rightarrow> string list \<Rightarrow> obj list \<Rightarrow>
   error + result list" where
  "multi_matches m query thr wd attrs [] = Inr []"
| "multi_matches m query thr wd attrs (ob # dataset) =
     (case score_obj m query thr wd attrs ob of
        Inl e \<Rightarrow> Inl e
      | Inr r \<Rightarrow>
          (case multi_matches m query thr wd attrs dataset of
             Inl e \<Rightarrow> Inl e
           | Inr matches \<Rightarrow> Inr (case r of None \<Rightarrow> matches | Some x \<Rightarrow> x # matches)))"

text \<open>Lines 195 and 196: the second pass over the candidates.\<close>

fun adjust_ratings :: "(string \<rightharpoonup> real) \<Rightarrow> result list \<Rightarrow> error + result list" where
  "adjust_ratings aw [] = Inr []"
| "adjust_ratings aw (x # matches) =
     (case aw (attr x) of
        None \<Rightarrow> Inl (KeyError (attr x))
      | Some w \<Rightarrow>
          (case adjust_ratings aw matches of
             Inl e \<Rightarrow> Inl e
           | Inr ys \<Rightarrow> Inr (x\<lparr>rating := rating x + w\<rparr> # ys)))"

definition search_single ::
  "settings \<Rightarrow> string \<Rightarrow> obj list \<Rightarrow> error + obj list" where
  "search_single cfg query dataset =
     (case single_matches (matcher cfg) query (threshold cfg) (the (attributes cfg) ! 0) dataset of
        Inl e \<Rightarrow> Inl e
      | Inr matches \<Rightarrow> Inr (select_results matches (threshold cfg) (limit cfg)))"

definition search_multi ::
  "utils \<Rightarrow> settings \<Rightarrow> string \<Rightarrow> obj list \<Rightarrow> error + obj list" where
  "search_multi U cfg query dataset =
     (case multi_matches (matcher cfg) query (threshold cfg)
             (weights_dict (the (attributes cfg)) (weights cfg)) (the (attributes cfg)) dataset of
        Inl e \<Rightarrow> Inl e
      | Inr matches \<Rightarrow>
          (case adjust_ratings (generate_weights_from_matches U matches) matches of
             Inl e \<Rightarrow> Inl e
           | Inr adjusted \<Rightarrow> Inr (select_results adjusted (threshold cfg) (limit cfg))))"

definition search ::
  "utils \<Rightarrow> engine \<Rightarrow> string \<Rightarrow> obj list \<Rightarrow> string list option \<Rightarrow> int option \<Rightarrow>
   real option \<Rightarrow> real list option \<Rightarrow> matcher_fn option \<Rightarrow> error + obj list" where
  "search U self query dataset attributes' limit' threshold' weights' matcher' =
     (let cfg = resolve self attributes' limit' threshold' weights' matcher' in
      if \<not> truthy (attributes cfg) then Inl (ValueError ''Missing attributes to search into.'')
      else if length (tokenize U query) = 0 then Inr []
      else if length (the (attributes cfg)) = 1 then search_single cfg query dataset
      else search_multi U cfg query dataset)"
subsection \<open>The quantities of the specification\<close>

text \<open>
  Section 4.4 of the specification in its own words, for an object that has every
  requested attribute: the Match Records (one per attribute with a non-empty value), their
  scores, the best similarity, the attribute of the first Match Record that reaches it, and
  the Candidate Result of step 5.
\<close>

definition match_records :: "matcher_fn \<Rightarrow> string \<Rightarrow> string list \<Rightarrow> obj \<Rightarrow> (string \<times> real) list" where
  "match_records m q attrs ob =
     map (\<lambda>a. (a, m q (the (ob a)))) (filter (\<lambda>a. the (ob a) \<noteq> []) attrs)"

definition scores :: "matcher_fn \<Rightarrow> string \<Rightarrow> string list \<Rightarrow> obj \<Rightarrow> real list" where
  "scores m q attrs ob = map snd (match_records m q attrs ob)"

definition best_similarity :: "matcher_fn \<Rightarrow> string \<Rightarrow> string list \<Rightarrow> obj \<Rightarrow> real" where
  "best_similarity m q attrs ob = Max (set (scores m q attrs ob))"

definition best_attribute :: "matcher_fn \<Rightarrow> string \<Rightarrow> string list \<Rightarrow> obj \<Rightarrow> string" where
  "best_attribute m q attrs ob =
     fst (hd (filter (\<lambda>p. snd p = best_similarity m q attrs ob) (match_records m q attrs ob)))"

definition candidate ::
  "matcher_fn \<Rightarrow> string \<Rightarrow> (string \<rightharpoonup> real) \<Rightarrow> string list \<Rightarrow> obj \<Rightarrow> result" where
  "candidate m q wd attrs ob =
     \<lparr>data = ob,
      match = best_similarity m q attrs ob,
      rating = best_similarity m q attrs ob + sum_list (scores m q attrs ob)
               + the (wd (best_attribute m q attrs ob)),
      attr = best_attribute m q attrs ob\<rparr>"

subsection \<open>Sample collaborators\<close>

text \<open>
  Modelled from the spec: \<open>utils.tokenize\<close> is not under the sources. A sample tokenizer
  after 4.1 for lower-case words separated by spaces: terms shorter than three characters
  and the stop words are dropped, the order is kept.
\<close>

definition stop_words :: "string list" where
  "stop_words = [''a'', ''is'', ''and'', ''the'', ''be'']"

fun split_spaces :: "string \<Rightarrow> string \<Rightarrow> string list" where
  "split_spaces w [] = (if w = [] then [] else [rev w])"
| "split_spaces w (c # cs) =
     (if c = CHR '' '' then (if w = [] then split_spaces [] cs else rev w # split_spaces [] cs)
      else split_spaces (c # w) cs)"

definition sample_tokenize :: "string \<Rightarrow> string list" where
  "sample_tokenize q =
     filter (\<lambda>w. 3 \<le> length w \<and> w \<notin> set stop_words) (split_spaces [] q)"

text \<open>
  Modelled from the spec: \<open>utils.generate_weights_from_matches\<close> is not under the sources.
  A sample after 4.4 step 6: the share of the candidates whose best attribute it is, for
  each attribute that is the best attribute of some candidate.
\<close>

definition sample_match_weights :: "result list \<Rightarrow> (string \<rightharpoonup> real)" where
  "sample_match_weights ms =
     map_of (map (\<lambda>a. (a, real (length (filter (\<lambda>x. attr x = a) ms)) / real (length ms)))
               (map attr ms))"

definition sample_utils :: utils where
  "sample_utils =
     \<lparr>tokenize = sample_tokenize,
      generate_weights = (\<lambda>as. ramp (length as)),
      generate_weights_from_matches = sample_match_weights\<rparr>"

text \<open>A sample matcher: 1 on equal strings, 1/2 on strings of equal first character, else 0.\<close>

definition sample_matcher :: matcher_fn where
  "sample_matcher q v = (if q = v then 1 else if take 1 q = take 1 v then 1 / 2 else 0)"

text \<open>A sample engine, built by the constructor with the defaults \<open>limit = -1\<close>, no weights.\<close>

definition sample_engine :: "string list option \<Rightarrow> engine" where
  "sample_engine as = init sample_utils as (- 1) (1 / 2) None sample_matcher"

text \<open>Sample objects with the attributes \<open>name\<close> and \<open>category\<close>.\<close>

definition item_a :: obj where
  "item_a = [''name'' \<mapsto> ''awesome item'', ''category'' \<mapsto> ''generic'']"

definition item_b :: obj where
  "item_b = [''name'' \<mapsto> ''plain item'', ''category'' \<mapsto> ''awesome'']"

definition item_c :: obj where
  "item_c = [''name'' \<mapsto> ''other'', ''category'' \<mapsto> '''']"

text \<open>An object whose requested values are all empty, and one that lacks \<open>category\<close>.\<close>

definition item_empty :: obj where
  "item_empty = [''name'' \<mapsto> '''', ''category'' \<mapsto> '''']"

definition item_short :: obj where
  "item_short = [''name'' \<mapsto> ''awesome'']"

text \<open>
  Two engines built by the constructor: one with \<open>limit = 1\<close> and \<open>threshold = 1/2\<close> on the
  attribute \<open>name\<close>, one with the weights \<open>[5, 1]\<close> for \<open>name\<close> and \<open>category\<close>.
\<close>

definition strict_engine :: engine where
  "strict_engine = init sample_utils (Some [''name'']) 1 (1 / 2) None sample_matcher"


section \<open>Lemmas\<close>


subsection \<open>The sort of \<open>select_results\<close>\<close>

lemma sorted_desc_sort_matches:
  "sorted_wrt (\<lambda>x y. rating x \<ge> rating y) (sort_matches ms)"
proof -
  have "sorted (map (\<lambda>m. - rating m) (sort_matches ms))"
    unfolding sort_matches_def by (rule sorted_sort_key)
  then show ?thesis
    by (simp add: sorted_map sorted_wrt_iff_nth_less)
qed

lemma mset_sort_matches: "mset (sort_matches ms) = mset ms"
  by (simp add: sort_matches_def)

lemma stable_sort_matches:
  "filter (\<lambda>m. rating m = r) (sort_matches ms) = filter (\<lambda>m. rating m = r) ms"
proof -
  have "filter (\<lambda>m. - rating m = - r) (sort_key (\<lambda>m. - rating m) ms)
        = filter (\<lambda>m. - rating m = - r) ms"
    by (rule sort_key_stable)
  then show ?thesis by (simp add: sort_matches_def)
qed

lemma length_sort_matches: "length (sort_matches ms) = length ms"
  by (simp add: sort_matches_def)

subsection \<open>The ramp and its normalization\<close>

lemma ramp_Suc: "ramp (Suc n) = real (Suc n) # ramp n"
  by (simp add: ramp_def)

lemma ramp_0: "ramp 0 = []"
  by (simp add: ramp_def)

lemma length_ramp: "length (ramp n) = n"
  by (simp add: ramp_def)


lemma sum_list_ramp: "sum_list (ramp n) = real (n * (n + 1)) / 2"
  by (induction n) (simp_all add: ramp_Suc ramp_0 field_simps)


lemma sum_list_ramp_pos:
  assumes "0 < n"
  shows "0 < sum_list (ramp n)"
proof -
  from assms have "0 < n * (n + 1)" by simp
  then have "0 < real (n * (n + 1))" by (simp only: of_nat_0_less_iff)
  then show ?thesis by (simp only: sum_list_ramp zero_less_divide_iff) simp
qed


lemma length_normalize_weights: "length (normalize_weights vs) = length vs"
  by (simp add: normalize_weights_def)



subsection \<open>The loops over the dataset\<close>

lemma single_matches_ok:
  assumes "\<forall>ob\<in>set ds. ob a \<noteq> None"
  shows "single_matches m q thr a ds =
         Inr (map (\<lambda>ob. create_result ob (m q (the (ob a))) (m q (the (ob a))) a)
                (filter (\<lambda>ob. thr \<le> m q (the (ob a))) ds))"
  using assms by (induction ds) (auto simp: getattr_def)

lemma single_matches_fail:
  assumes "\<exists>ob\<in>set ds. ob a = None"
  shows "single_matches m q thr a ds = Inl (AttributeError a)"
  using assms
proof (induction ds)
  case Nil then show ?case by simp
next
  case (Cons ob ds)
  show ?case
  proof (cases "ob a")
    case None then show ?thesis by (simp add: getattr_def)
  next
    case (Some v)
    with Cons.prems have "\<exists>ob\<in>set ds. ob a = None" by auto
    from Cons.IH[OF this] Some show ?thesis by (simp add: getattr_def)
  qed
qed

lemma partial_matches_ok:
  assumes "\<forall>a\<in>set attrs. ob a \<noteq> None"
  shows "partial_matches m q ob attrs = Inr (match_records m q attrs ob)"
  using assms by (induction attrs) (auto simp: getattr_def match_records_def)

lemma partial_matches_fail:
  assumes "\<exists>a\<in>set attrs. ob a = None"
  shows "\<exists>a\<in>set attrs. ob a = None \<and> partial_matches m q ob attrs = Inl (AttributeError a)"
  using assms
proof (induction attrs)
  case Nil then show ?case by simp
next
  case (Cons a attrs)
  show ?case
  proof (cases "ob a")
    case None then show ?thesis by (simp add: getattr_def)
  next
    case (Some v)
    with Cons.prems have "\<exists>a\<in>set attrs. ob a = None" by auto
    from Cons.IH[OF this] obtain b where "b \<in> set attrs" "ob b = None"
      "partial_matches m q ob attrs = Inl (AttributeError b)" by blast
    with Some show ?thesis by (auto simp: getattr_def)
  qed
qed

lemma fold_max_first:
  "fold (\<lambda>x best. if snd x > snd best then x else best) ps (p::string \<times> real) =
   hd (filter (\<lambda>x. snd x = Max (snd ` set (p # ps))) (p # ps))"
proof (induction ps arbitrary: p)
  case Nil then show ?case by simp
next
  case (Cons x ps)
  have gx: "snd x \<le> Max (snd ` set (x # ps))" by (rule Max_ge) auto
  have gp: "snd p \<le> Max (snd ` set (p # ps))" by (rule Max_ge) auto
  have Mp: "Max (snd ` set (p # x # ps)) = max (snd p) (Max (snd ` set (x # ps)))"
    by (simp only: list.set image_insert) (rule Max_insert, auto)
  have Mx: "Max (snd ` set (p # x # ps)) = max (snd x) (Max (snd ` set (p # ps)))"
    by (simp only: list.set image_insert insert_commute[of "snd p"]) (rule Max_insert, auto)
  show ?case
  proof (cases "snd x > snd p")
    case True
    with gx Mp have M: "Max (snd ` set (p # x # ps)) = Max (snd ` set (x # ps))"
      and ne: "snd p \<noteq> Max (snd ` set (p # x # ps))" by linarith+
    have "fold (\<lambda>x best. if snd x > snd best then x else best) (x # ps) p
          = hd (filter (\<lambda>y. snd y = Max (snd ` set (x # ps))) (x # ps))"
      using True Cons.IH[of x] by simp
    also have "\<dots> = hd (filter (\<lambda>y. snd y = Max (snd ` set (p # x # ps))) (p # x # ps))"
      using ne by (simp only: M filter.simps) simp
    finally show ?thesis .
  next
    case False
    with gp Mx have M: "Max (snd ` set (p # x # ps)) = Max (snd ` set (p # ps))" by linarith
    have step: "fold (\<lambda>x best. if snd x > snd best then x else best) (x # ps) p
          = hd (filter (\<lambda>y. snd y = Max (snd ` set (p # ps))) (p # ps))"
      using False Cons.IH[of p] by simp
    show ?thesis
    proof (cases "snd p = Max (snd ` set (p # ps))")
      case True
      then show ?thesis by (simp only: step M filter.simps) simp
    next
      case F2: False
      with gp have "snd p < Max (snd ` set (p # ps))" by linarith
      with False have nx: "snd x \<noteq> Max (snd ` set (p # ps))" by linarith
      show ?thesis using F2 nx by (simp only: step M filter.simps) simp
    qed
  qed
qed

lemma max_match_first:
  assumes "ps \<noteq> []"
  shows "max_match ps = Inr (hd (filter (\<lambda>x. snd x = Max (snd ` set ps)) ps))"
proof (cases ps)
  case Nil with assms show ?thesis by simp
next
  case (Cons p qs)
  then show ?thesis by (simp only: max_match.simps fold_max_first)
qed

lemma Max_in_scores:
  assumes "ps \<noteq> []"
  shows "filter (\<lambda>x. snd x = Max (snd ` set ps)) ps \<noteq> []"
proof -
  have "Max (snd ` set ps) \<in> snd ` set ps"
    by (rule Max_in) (use assms in auto)
  then obtain x where "x \<in> set ps" "snd x = Max (snd ` set ps)" by force
  then show ?thesis by (force simp: filter_empty_conv)
qed

lemma length_default_weights: "length (default_weights attrs ws) = length attrs"
  by (simp add: default_weights_def length_ramp)

lemma weights_dict_defined:
  assumes "a \<in> set attrs"
  shows "weights_dict attrs ws a \<noteq> None"
proof -
  have "length (normalize_weights (default_weights attrs ws)) = length attrs"
    by (simp add: length_normalize_weights length_default_weights)
  then have "fst ` set (rev (zip attrs (normalize_weights (default_weights attrs ws)))) = set attrs"
    by (simp only: set_rev) (metis map_fst_zip set_map)
  with assms show ?thesis
    unfolding weights_dict_def by (simp only: map_of_eq_None_iff) simp
qed

lemma best_attribute_in_attrs:
  assumes "match_records m q attrs ob \<noteq> []"
  shows "best_attribute m q attrs ob \<in> set attrs"
proof -
  let ?ps = "match_records m q attrs ob"
  let ?f = "filter (\<lambda>p. snd p = Max (snd ` set ?ps)) ?ps"
  have "?f \<noteq> []" by (rule Max_in_scores[OF assms])
  then have "hd ?f \<in> set ?f" by (rule hd_in_set)
  then have "hd ?f \<in> set ?ps" by simp
  then have "fst (hd ?f) \<in> fst ` set ?ps" by (rule imageI)
  moreover have "fst ` set ?ps \<subseteq> set attrs" by (auto simp: match_records_def)
  ultimately show ?thesis
    by (auto simp: best_attribute_def best_similarity_def scores_def)
qed

lemma best_similarity_hd:
  assumes "match_records m q attrs ob \<noteq> []"
  shows "snd (hd (filter (\<lambda>p. snd p = best_similarity m q attrs ob) (match_records m q attrs ob)))
         = best_similarity m q attrs ob"
proof -
  let ?ps = "match_records m q attrs ob"
  let ?f = "filter (\<lambda>p. snd p = Max (snd ` set ?ps)) ?ps"
  have "?f \<noteq> []" by (rule Max_in_scores[OF assms])
  then have "hd ?f \<in> set ?f" by (rule hd_in_set)
  then have "snd (hd ?f) = Max (snd ` set ?ps)" by simp
  then show ?thesis by (simp add: best_similarity_def scores_def)
qed

lemma score_obj_ok:
  assumes "\<forall>a\<in>set attrs. ob a \<noteq> None"
    and "match_records m q attrs ob \<noteq> []"
    and "\<forall>a\<in>set attrs. wd a \<noteq> None"
  shows "score_obj m q thr wd attrs ob =
         Inr (if thr \<le> best_similarity m q attrs ob then Some (candidate m q wd attrs ob)
              else None)"
proof -
  let ?ps = "match_records m q attrs ob"
  let ?h = "hd (filter (\<lambda>p. snd p = best_similarity m q attrs ob) ?ps)"
  have mm: "max_match ?ps = Inr ?h"
    using max_match_first[OF assms(2)] by (simp add: best_similarity_def scores_def)
  have h: "?h = (best_attribute m q attrs ob, best_similarity m q attrs ob)"
    using best_similarity_hd[OF assms(2)] by (simp add: best_attribute_def prod_eq_iff)
  from best_attribute_in_attrs[OF assms(2)] assms(3)
  obtain w where w: "wd (best_attribute m q attrs ob) = Some w" by auto
  show ?thesis
    unfolding score_obj_def
    by (simp add: partial_matches_ok[OF assms(1)] mm h w candidate_def create_result_def
        scores_def)
qed

lemma multi_matches_ok:
  assumes "\<forall>ob\<in>set ds. \<forall>a\<in>set attrs. ob a \<noteq> None"
    and "\<forall>ob\<in>set ds. match_records m q attrs ob \<noteq> []"
    and "\<forall>a\<in>set attrs. wd a \<noteq> None"
  shows "multi_matches m q thr wd attrs ds =
         Inr (map (candidate m q wd attrs)
                (filter (\<lambda>ob. thr \<le> best_similarity m q attrs ob) ds))"
  using assms(1,2)
proof (induction ds)
  case Nil then show ?case by simp
next
  case (Cons ob ds)
  have "score_obj m q thr wd attrs ob =
         Inr (if thr \<le> best_similarity m q attrs ob then Some (candidate m q wd attrs ob)
              else None)"
    by (rule score_obj_ok) (use Cons.prems assms(3) in auto)
  moreover have "multi_matches m q thr wd attrs ds =
         Inr (map (candidate m q wd attrs)
                (filter (\<lambda>ob. thr \<le> best_similarity m q attrs ob) ds))"
    by (rule Cons.IH) (use Cons.prems in auto)
  ultimately show ?case by simp
qed

lemma score_obj_fail:
  assumes "\<exists>a\<in>set attrs. ob a = None"
  shows "\<exists>a\<in>set attrs. ob a = None \<and> score_obj m q thr wd attrs ob = Inl (AttributeError a)"
proof -
  from partial_matches_fail[OF assms] obtain a where "a \<in> set attrs" "ob a = None"
    "partial_matches m q ob attrs = Inl (AttributeError a)" by blast
  then show ?thesis by (auto simp: score_obj_def)
qed

lemma multi_matches_fail:
  assumes "\<forall>ob\<in>set pre. \<forall>a\<in>set attrs. ob a \<noteq> None"
    and "\<forall>ob\<in>set pre. match_records m q attrs ob \<noteq> []"
    and "\<forall>a\<in>set attrs. wd a \<noteq> None"
    and "score_obj m q thr wd attrs bad = Inl e"
  shows "multi_matches m q thr wd attrs (pre @ bad # post) = Inl e"
  using assms(1,2)
proof (induction pre)
  case Nil then show ?case using assms(4) by simp
next
  case (Cons ob pre)
  have "score_obj m q thr wd attrs ob =
         Inr (if thr \<le> best_similarity m q attrs ob then Some (candidate m q wd attrs ob)
              else None)"
    by (rule score_obj_ok) (use Cons.prems assms(3) in auto)
  moreover have "multi_matches m q thr wd attrs (pre @ bad # post) = Inl e"
    by (rule Cons.IH) (use Cons.prems in auto)
  ultimately show ?case by simp
qed

lemma single_matches_fail_first:
  assumes "bad a = None"
  shows "single_matches m q thr a (pre @ bad # post) = Inl (AttributeError a)"
  by (rule single_matches_fail) (use assms in auto)
lemma match_records_nonempty:
  "match_records m q attrs ob \<noteq> [] \<longleftrightarrow> (\<exists>a\<in>set attrs. the (ob a) \<noteq> [])"
  by (auto simp: match_records_def filter_empty_conv)


subsection \<open>The sample collaborators and objects, evaluated\<close>

lemma sample_engine_fields:
  "self_attributes (sample_engine as) = as"
  "self_limit (sample_engine as) = - 1"
  "self_threshold (sample_engine as) = 1 / 2"
  "self_matcher (sample_engine as) = sample_matcher"
  "self_weights (sample_engine None) = None"
  "self_weights (sample_engine (Some [])) = None"
  "self_weights (sample_engine (Some (x # xs))) = Some (ramp (Suc (length xs)))"
  by (simp_all add: sample_engine_def init_def truthy_def sample_utils_def)

lemma strict_engine_fields:
  "self_attributes strict_engine = Some [''name'']"
  "self_limit strict_engine = 1"
  "self_threshold strict_engine = 1 / 2"
  "self_matcher strict_engine = sample_matcher"
  by (simp_all add: strict_engine_def init_def)


lemma sample_scores:
  "sample_matcher ''awesome'' ''awesome item'' = 1 / 2"
  "sample_matcher ''awesome'' ''awesome'' = 1"
  "sample_matcher ''awesome'' ''plain item'' = 0"
  by (simp_all add: sample_matcher_def)

lemma sample_utils_fields:
  "tokenize sample_utils = sample_tokenize"
  "generate_weights sample_utils = (\<lambda>as. ramp (length as))"
  "generate_weights_from_matches sample_utils = sample_match_weights"
  by (simp_all add: sample_utils_def)

lemma item_a_attrs:
  "item_a ''name'' = Some ''awesome item''" "item_a ''category'' = Some ''generic''"
  by (simp_all add: item_a_def)

lemma item_b_attrs:
  "item_b ''name'' = Some ''plain item''" "item_b ''category'' = Some ''awesome''"
  by (simp_all add: item_b_def)

lemma item_c_attrs: "item_c ''name'' = Some ''other''" "item_c ''category'' = Some ''''"
  by (simp_all add: item_c_def)

lemma item_empty_attrs: "item_empty ''name'' = Some ''''" "item_empty ''category'' = Some ''''"
  by (simp_all add: item_empty_def)

lemma item_short_attrs: "item_short ''name'' = Some ''awesome''" "item_short ''category'' = None"
  by (simp_all add: item_short_def)

lemma match_records_item_a:
  "match_records sample_matcher ''awesome'' [''name'', ''category''] item_a
   = [(''name'', 1 / 2), (''category'', 0)]"
  by (simp add: match_records_def item_a_attrs sample_matcher_def)

lemma match_records_item_b:
  "match_records sample_matcher ''awesome'' [''name'', ''category''] item_b
   = [(''name'', 0), (''category'', 1)]"
  by (simp add: match_records_def item_b_attrs sample_matcher_def)

lemma match_records_item_c:
  "match_records sample_matcher ''awesome'' [''name'', ''category''] item_c = [(''name'', 0)]"
  by (simp add: match_records_def item_c_attrs sample_matcher_def)

lemma best_similarity_items:
  "best_similarity sample_matcher ''awesome'' [''name'', ''category''] item_a = 1 / 2"
  "best_similarity sample_matcher ''awesome'' [''name'', ''category''] item_b = 1"
  "best_similarity sample_matcher ''awesome'' [''name'', ''category''] item_c = 0"
  by (simp_all add: best_similarity_def scores_def match_records_item_a match_records_item_b
      match_records_item_c)

lemma best_attribute_items:
  "best_attribute sample_matcher ''awesome'' [''name'', ''category''] item_a = ''name''"
  "best_attribute sample_matcher ''awesome'' [''name'', ''category''] item_b = ''category''"
  by (simp_all add: best_attribute_def best_similarity_items match_records_item_a
      match_records_item_b)

lemma weights_dict_sample:
  "weights_dict [''name'', ''category''] None ''name'' = Some (2 / 3)"
  "weights_dict [''name'', ''category''] None ''category'' = Some (1 / 3)"
  by (simp_all add: weights_dict_def default_weights_def truthy_def ramp_def
      normalize_weights_def)

lemma sample_tokens:
  "sample_tokenize ''awesome'' = [''awesome'']" "sample_tokenize ''the is a'' = []"
  "sample_tokenize [] = []" "sample_tokenize ''john'' = [''john'']"
  "sample_tokenize ''john doe'' = [''john'', ''doe'']"
  by (simp_all add: sample_tokenize_def stop_words_def)

subsection \<open>The paths of \<open>search\<close>\<close>

lemma resolve_sel:
  "attributes (resolve self a' l' t' w' m') = py_or_list a' (self_attributes self)"
  "weights (resolve self a' l' t' w' m') = py_or_list w' (self_weights self)"
  "limit (resolve self a' l' t' w' m') = py_or_num l' (self_limit self)"
  "threshold (resolve self a' l' t' w' m') = py_or_num t' (self_threshold self)"
  "matcher (resolve self a' l' t' w' m') = py_or_fun m' (self_matcher self)"
  by (simp_all add: resolve_def)

lemma resolve_each_field:
  "(truthy a' \<longrightarrow> attributes (resolve self a' l' t' w' m') = a')
   \<and> (a' = None \<longrightarrow> attributes (resolve self a' l' t' w' m') = self_attributes self)
   \<and> (truthy w' \<longrightarrow> weights (resolve self a' l' t' w' m') = w')
   \<and> (w' = None \<longrightarrow> weights (resolve self a' l' t' w' m') = self_weights self)
   \<and> (\<forall>v. l' = Some v \<and> v \<noteq> 0 \<longrightarrow> limit (resolve self a' l' t' w' m') = v)
   \<and> (l' = None \<longrightarrow> limit (resolve self a' l' t' w' m') = self_limit self)
   \<and> (\<forall>v. t' = Some v \<and> v \<noteq> 0 \<longrightarrow> threshold (resolve self a' l' t' w' m') = v)
   \<and> (t' = None \<longrightarrow> threshold (resolve self a' l' t' w' m') = self_threshold self)
   \<and> (\<forall>f. m' = Some f \<longrightarrow> matcher (resolve self a' l' t' w' m') = f)
   \<and> (m' = None \<longrightarrow> matcher (resolve self a' l' t' w' m') = self_matcher self)
   \<and> attributes (resolve self a' l2 t2 w2 m2) = attributes (resolve self a' l' t' w' m')
   \<and> weights (resolve self a2 l2 t2 w' m2) = weights (resolve self a' l' t' w' m')
   \<and> limit (resolve self a2 l' t2 w2 m2) = limit (resolve self a' l' t' w' m')
   \<and> threshold (resolve self a2 l2 t' w2 m2) = threshold (resolve self a' l' t' w' m')
   \<and> matcher (resolve self a2 l2 t2 w2 m') = matcher (resolve self a' l' t' w' m')"
  by (auto simp: resolve_def py_or_list_def py_or_num_def py_or_fun_def truthy_def)

lemma search_single_path:
  assumes "attributes (resolve self a' l' t' w' m') = Some [a]" and "tokenize U query \<noteq> []"
  shows "search U self query dataset a' l' t' w' m' =
         (case single_matches (py_or_fun m' (self_matcher self)) query
                 (py_or_num t' (self_threshold self)) a dataset of
            Inl e \<Rightarrow> Inl e
          | Inr ms \<Rightarrow> Inr (select_results ms (py_or_num t' (self_threshold self))
                            (py_or_num l' (self_limit self))))"
proof -
  have "search U self query dataset a' l' t' w' m' =
        search_single (resolve self a' l' t' w' m') query dataset"
    using assms by (simp add: search_def Let_def truthy_def)
  also have "\<dots> = (case single_matches (py_or_fun m' (self_matcher self)) query
                 (py_or_num t' (self_threshold self)) a dataset of
            Inl e \<Rightarrow> Inl e
          | Inr ms \<Rightarrow> Inr (select_results ms (py_or_num t' (self_threshold self))
                            (py_or_num l' (self_limit self))))"
    unfolding search_single_def assms(1) resolve_sel(2-5) by simp
  finally show ?thesis .
qed

lemma search_multi_path:
  assumes "attributes (resolve self a' l' t' w' m') = Some attrs" and "1 < length attrs"
    and "tokenize U query \<noteq> []"
  shows "search U self query dataset a' l' t' w' m' =
         (case multi_matches (py_or_fun m' (self_matcher self)) query
                 (py_or_num t' (self_threshold self))
                 (weights_dict attrs (py_or_list w' (self_weights self))) attrs dataset of
            Inl e \<Rightarrow> Inl e
          | Inr ms \<Rightarrow>
              (case adjust_ratings (generate_weights_from_matches U ms) ms of
                 Inl e \<Rightarrow> Inl e
               | Inr adjusted \<Rightarrow>
                   Inr (select_results adjusted (py_or_num t' (self_threshold self))
                         (py_or_num l' (self_limit self)))))"
proof -
  from assms(2) have ne: "attrs \<noteq> []" by auto
  have "search U self query dataset a' l' t' w' m' =
        search_multi U (resolve self a' l' t' w' m') query dataset"
    using assms ne by (simp add: search_def Let_def truthy_def)
  also have "\<dots> = (case multi_matches (py_or_fun m' (self_matcher self)) query
                 (py_or_num t' (self_threshold self))
                 (weights_dict attrs (py_or_list w' (self_weights self))) attrs dataset of
            Inl e \<Rightarrow> Inl e
          | Inr ms \<Rightarrow>
              (case adjust_ratings (generate_weights_from_matches U ms) ms of
                 Inl e \<Rightarrow> Inl e
               | Inr adjusted \<Rightarrow>
                   Inr (select_results adjusted (py_or_num t' (self_threshold self))
                         (py_or_num l' (self_limit self)))))"
    unfolding search_multi_def assms(1) resolve_sel(2-5) by simp
  finally show ?thesis .
qed

lemma score_obj_all_empty:
  assumes "\<forall>a\<in>set attrs. ob a = Some []"
  shows "score_obj m q thr wd attrs ob = Inl (ValueError ''max() arg is an empty sequence'')"
proof -
  from assms have p: "\<forall>a\<in>set attrs. ob a \<noteq> None" by simp
  from assms have "match_records m q attrs ob = []"
    by (simp add: match_records_def filter_empty_conv)
  then show ?thesis
    by (simp add: score_obj_def partial_matches_ok[OF p])
qed


section \<open>The claims\<close>

text \<open>
  C4. When the attribute list is absent or empty at call time and at construction time,
  \<open>search\<close> raises the error ``Missing attributes to search into.'' (the specification's
  ConfigurationError is the \<open>ValueError\<close> of line 127), whatever the query, the dataset and
  the other arguments are: no object is scored and no list is returned.
\<close>

theorem search_missing_attributes:
  assumes "\<not> truthy a'" and "\<not> truthy (self_attributes self)"
  shows "search U self query dataset a' l' t' w' m' =
         Inl (ValueError ''Missing attributes to search into.'')"
  using assms by (simp add: search_def resolve_def py_or_list_def)

theorem search_missing_attributes_witness:
  "search sample_utils (sample_engine None) ''john doe'' [[''name'' \<mapsto> ''john doe'']]
     (Some []) (Some 3) None (Some [1, 2]) None =
   Inl (ValueError ''Missing attributes to search into.'')"
  using search_missing_attributes [of "Some []" "sample_engine None" sample_utils "''john doe''"
      "[[''name'' \<mapsto> ''john doe'']]" "Some 3" None "Some [1, 2]" None]
  by (simp add: truthy_def sample_engine_fields)

text \<open>
  C10. The check of the attributes comes before the check of the query: when no attributes
  can be resolved and the query has no tokens, \<open>search\<close> raises the error of the missing
  attributes and does not return the empty list.
\<close>

theorem missing_attributes_before_empty_query:
  assumes "\<not> truthy a'" and "\<not> truthy (self_attributes self)" and "tokenize U query = []"
  shows "search U self query dataset a' l' t' w' m' =
           Inl (ValueError ''Missing attributes to search into.'')
         \<and> search U self query dataset a' l' t' w' m' \<noteq> Inr []"
  using assms by (simp add: search_def resolve_def py_or_list_def)

theorem missing_attributes_before_empty_query_witness:
  "tokenize sample_utils ''the is a'' = []
   \<and> search sample_utils (sample_engine (Some [])) ''the is a'' [] None None None None None =
     Inl (ValueError ''Missing attributes to search into.'')"
  using missing_attributes_before_empty_query [of None "sample_engine (Some [])" sample_utils
      "''the is a''" "[]" None None None None]
  by (simp add: truthy_def sample_engine_fields sample_utils_fields sample_tokens)

text \<open>
  C3. When the resolved attribute list is not empty and the query has no tokens, \<open>search\<close>
  returns the empty list, for every dataset: also for one whose objects have no attribute
  at all, on which every \<open>getattr\<close> would raise. The result does not depend on the dataset,
  the matcher or any attribute value.
\<close>

theorem search_empty_query:
  assumes "truthy (attributes (resolve self a' l' t' w' m'))" and "tokenize U query = []"
  shows "search U self query dataset a' l' t' w' m' = Inr []"
  using assms by (simp add: search_def)

theorem search_empty_query_witness:
  "search sample_utils (sample_engine (Some [''name''])) ''the is a'' [Map.empty, Map.empty]
     None None None None None = Inr []
   \<and> search sample_utils (sample_engine None) [] [Map.empty]
     (Some [''name'', ''category'']) None None None None = Inr []"
  using search_empty_query [of "sample_engine (Some [''name''])" None None None None None
      sample_utils "''the is a''" "[Map.empty, Map.empty]"]
    search_empty_query [of "sample_engine None" "Some [''name'', ''category'']" None None None None
      sample_utils "[]" "[Map.empty]"]
  by (simp add: truthy_def sample_engine_fields sample_utils_fields sample_tokens
      resolve_def py_or_list_def)

text \<open>
  C6. \<open>select_results\<close> sorts the candidates by rating in descending order; the sort is a
  permutation and stable (the candidates of one rating keep the order they had). With
  \<open>limit > 0\<close> the first \<open>limit\<close> candidates of the sorted list are kept (so at most \<open>limit\<close>),
  with \<open>limit \<le> 0\<close> all of them; what is returned is the \<open>data\<close> of each candidate kept, the
  object of the dataset, without its scores.
\<close>

theorem select_results_sorted_stable_limited:
  "sorted_wrt (\<lambda>x y. rating x \<ge> rating y) (sort_matches ms)
   \<and> mset (sort_matches ms) = mset ms
   \<and> (\<forall>r. filter (\<lambda>x. rating x = r) (sort_matches ms) = filter (\<lambda>x. rating x = r) ms)
   \<and> (0 < k \<longrightarrow> select_results ms thr k = map data (take (nat k) (sort_matches ms))
                \<and> length (select_results ms thr k) = min (nat k) (length ms)
                \<and> length (select_results ms thr k) \<le> nat k)
   \<and> (k \<le> 0 \<longrightarrow> select_results ms thr k = map data (sort_matches ms)
                \<and> length (select_results ms thr k) = length ms)"
  by (simp add: sorted_desc_sort_matches mset_sort_matches stable_sort_matches
      select_results_def length_sort_matches min.commute)

theorem select_results_sorted_stable_limited_witness:
  "select_results
     [create_result [''name'' \<mapsto> ''a''] 1 1 ''name'',
      create_result [''name'' \<mapsto> ''b''] 2 2 ''name'',
      create_result [''name'' \<mapsto> ''c''] 1 1 ''name'',
      create_result [''name'' \<mapsto> ''d''] 2 2 ''name''] (1 / 2) 3
     = [[''name'' \<mapsto> ''b''], [''name'' \<mapsto> ''d''], [''name'' \<mapsto> ''a'']]
   \<and> length (select_results
     [create_result [''name'' \<mapsto> ''a''] 1 1 ''name'',
      create_result [''name'' \<mapsto> ''b''] 2 2 ''name'',
      create_result [''name'' \<mapsto> ''c''] 1 1 ''name'',
      create_result [''name'' \<mapsto> ''d''] 2 2 ''name''] (1 / 2) 0) = 4"
  using select_results_sorted_stable_limited [of
      "[create_result [''name'' \<mapsto> ''a''] 1 1 ''name'',
        create_result [''name'' \<mapsto> ''b''] 2 2 ''name'',
        create_result [''name'' \<mapsto> ''c''] 1 1 ''name'',
        create_result [''name'' \<mapsto> ''d''] 2 2 ''name'']" 3 "1 / 2"]
    select_results_sorted_stable_limited [of
      "[create_result [''name'' \<mapsto> ''a''] 1 1 ''name'',
        create_result [''name'' \<mapsto> ''b''] 2 2 ''name'',
        create_result [''name'' \<mapsto> ''c''] 1 1 ''name'',
        create_result [''name'' \<mapsto> ''d''] 2 2 ''name'']" 0 "1 / 2"]
  by (simp add: sort_matches_def create_result_def)




text \<open>
  C7. The claim: a value given at call time replaces the default of the engine, field by
  field. The code: lines 122 and 123 resolve \<open>limit\<close> and \<open>threshold\<close> with \<open>or\<close>, so a limit of
  0 or a threshold of 0 given at call time is dropped and the default of the engine is
  used, for every engine and whatever the other arguments are. The constructor keeps the
  same values as they are given.
\<close>

theorem call_time_zero_dropped:
  "limit (resolve self a' (Some 0) t' w' m') = self_limit self
   \<and> threshold (resolve self a' l' (Some 0) w' m') = self_threshold self"
  by (simp add: resolve_def py_or_num_def)

theorem call_time_zero_dropped_witness:
  "limit (resolve strict_engine None (Some 0) None None None) = 1
   \<and> search sample_utils strict_engine ''awesome'' [item_a, item_short]
       None (Some 0) None None None = Inr [item_short]
   \<and> threshold (resolve strict_engine None None (Some 0) None None) = 1 / 2
   \<and> search sample_utils strict_engine ''awesome'' [item_b]
       None None (Some 0) None None = Inr []"
proof -
  have a: "attributes (resolve strict_engine None l' t' None None) = Some [''name'']" for l' t'
    by (simp add: resolve_def py_or_list_def truthy_def strict_engine_fields)
  have t: "tokenize sample_utils ''awesome'' \<noteq> []"
    by (simp add: sample_utils_fields sample_tokens)
  have s1: "search sample_utils strict_engine ''awesome'' [item_a, item_short]
       None (Some 0) None None None = Inr [item_short]"
    by (simp add: search_single_path[OF a t] py_or_num_def py_or_fun_def strict_engine_fields
        getattr_def item_a_attrs item_short_attrs sample_scores select_results_def
        sort_matches_def create_result_def)
  have s2: "search sample_utils strict_engine ''awesome'' [item_b]
       None None (Some 0) None None = Inr []"
    by (simp add: search_single_path[OF a t] py_or_num_def py_or_fun_def strict_engine_fields
        getattr_def item_b_attrs sample_scores select_results_def sort_matches_def)
  show ?thesis
    using call_time_zero_dropped [of strict_engine None None None None None] s1 s2
    by (simp add: strict_engine_fields)
qed

text \<open>
  C5. When the resolved attribute list is the single attribute \<open>a\<close>, the query has tokens
  and every object of the dataset has \<open>a\<close>, the candidates are the objects whose score, the
  matcher applied to the query and the value of \<open>a\<close>, is at least the threshold, in the order
  of the dataset, each with that score as its rating; \<open>search\<close> returns what
  \<open>select_results\<close> selects of them. Whatever happens, the weights given at call time do not
  change the result of a single-attribute call.
\<close>

theorem single_attribute_search:
  assumes "attributes (resolve self a' l' t' w1 m') = Some [a]"
  shows "(tokenize U query \<noteq> [] \<and> (\<forall>ob\<in>set dataset. ob a \<noteq> None) \<longrightarrow>
           search U self query dataset a' l' t' w1 m' =
             Inr (select_results
               (map (\<lambda>ob. \<lparr>data = ob,
                            match = py_or_fun m' (self_matcher self) query (the (ob a)),
                            rating = py_or_fun m' (self_matcher self) query (the (ob a)),
                            attr = a\<rparr>)
                  (filter (\<lambda>ob. py_or_num t' (self_threshold self)
                                  \<le> py_or_fun m' (self_matcher self) query (the (ob a)))
                     dataset))
               (py_or_num t' (self_threshold self)) (py_or_num l' (self_limit self))))
         \<and> search U self query dataset a' l' t' w1 m' = search U self query dataset a' l' t' w2 m'"
proof -
  from assms have a1: "py_or_list a' (self_attributes self) = Some [a]"
    by (simp add: resolve_def)
  have ind: "search U self query dataset a' l' t' w1 m' = search U self query dataset a' l' t' w2 m'"
    using a1 by (simp add: search_def resolve_def search_single_def Let_def split: sum.split)
  have "search U self query dataset a' l' t' w1 m' =
          Inr (select_results
               (map (\<lambda>ob. create_result ob (py_or_fun m' (self_matcher self) query (the (ob a)))
                            (py_or_fun m' (self_matcher self) query (the (ob a))) a)
                  (filter (\<lambda>ob. py_or_num t' (self_threshold self)
                                  \<le> py_or_fun m' (self_matcher self) query (the (ob a)))
                     dataset))
               (py_or_num t' (self_threshold self)) (py_or_num l' (self_limit self)))"
    if "tokenize U query \<noteq> []" and h: "\<forall>ob\<in>set dataset. ob a \<noteq> None"
    using a1 that(1)
    by (simp add: search_def resolve_def search_single_def truthy_def single_matches_ok[OF h]
        Let_def)
  then show ?thesis using ind by (simp add: create_result_def)
qed

theorem single_attribute_search_witness:
  "search sample_utils (sample_engine (Some [''name''])) ''john''
     [[''name'' \<mapsto> ''jane''], [''name'' \<mapsto> ''mary''], [''name'' \<mapsto> ''john'']]
     None None None (Some [5]) None
   = Inr [[''name'' \<mapsto> ''john''], [''name'' \<mapsto> ''jane'']]
   \<and> search sample_utils (sample_engine (Some [''name''])) ''john''
     [[''name'' \<mapsto> ''jane''], [''name'' \<mapsto> ''mary''], [''name'' \<mapsto> ''john'']]
     None None None None None
   = Inr [[''name'' \<mapsto> ''john''], [''name'' \<mapsto> ''jane'']]"
  using single_attribute_search [of "sample_engine (Some [''name''])" None None None "Some [5]"
      None "''name''" sample_utils "''john''"
      "[[''name'' \<mapsto> ''jane''], [''name'' \<mapsto> ''mary''], [''name'' \<mapsto> ''john'']]" None]
  by (auto simp: resolve_def py_or_list_def py_or_num_def py_or_fun_def truthy_def
      sample_engine_fields sample_utils_fields sample_tokens sample_matcher_def
      select_results_def sort_matches_def)

text \<open>
  C1. In the loop of the multi-attribute path (lines 159 to 183), over a dataset whose
  objects have every requested attribute and at least one non-empty value each: the
  candidates are the objects whose best similarity is at least the threshold, in the order
  of the dataset, and the rating of each is its best similarity, plus the sum of the
  scores of all its Match Records, plus the normalized weight of its best attribute. The
  best similarity is one of the scores of that sum, so it is counted twice. This is the
  rating with which the loop emits the candidate; the second pass (line 196) adds the
  adjusted weight of the best attribute to it afterwards.
\<close>

theorem multi_candidate_rating:
  assumes "\<forall>ob\<in>set dataset. \<forall>a\<in>set attrs. ob a \<noteq> None"
    and "\<forall>ob\<in>set dataset. \<exists>a\<in>set attrs. the (ob a) \<noteq> []"
  shows "multi_matches m q thr (weights_dict attrs ws) attrs dataset =
           Inr (map (\<lambda>ob. \<lparr>data = ob,
                            match = best_similarity m q attrs ob,
                            rating = best_similarity m q attrs ob
                                     + sum_list (scores m q attrs ob)
                                     + the (weights_dict attrs ws (best_attribute m q attrs ob)),
                            attr = best_attribute m q attrs ob\<rparr>)
                  (filter (\<lambda>ob. thr \<le> best_similarity m q attrs ob) dataset))
         \<and> (\<forall>ob\<in>set dataset. best_similarity m q attrs ob \<in> set (scores m q attrs ob)
               \<and> best_attribute m q attrs ob \<in> set attrs
               \<and> weights_dict attrs ws (best_attribute m q attrs ob) \<noteq> None)"
proof -
  have ne: "\<forall>ob\<in>set dataset. match_records m q attrs ob \<noteq> []"
    using assms(2) by (simp add: match_records_nonempty)
  have wd: "\<forall>a\<in>set attrs. weights_dict attrs ws a \<noteq> None"
    by (simp add: weights_dict_defined)
  have "multi_matches m q thr (weights_dict attrs ws) attrs dataset =
          Inr (map (candidate m q (weights_dict attrs ws) attrs)
                 (filter (\<lambda>ob. thr \<le> best_similarity m q attrs ob) dataset))"
    by (rule multi_matches_ok[OF assms(1) ne wd])
  moreover have "candidate m q (weights_dict attrs ws) attrs =
          (\<lambda>ob. \<lparr>data = ob,
                  match = best_similarity m q attrs ob,
                  rating = best_similarity m q attrs ob
                           + sum_list (scores m q attrs ob)
                           + the (weights_dict attrs ws (best_attribute m q attrs ob)),
                  attr = best_attribute m q attrs ob\<rparr>)"
    by (rule ext) (simp add: candidate_def)
  moreover have "best_similarity m q attrs ob \<in> set (scores m q attrs ob)
      \<and> best_attribute m q attrs ob \<in> set attrs
      \<and> weights_dict attrs ws (best_attribute m q attrs ob) \<noteq> None"
    if "ob \<in> set dataset" for ob
  proof -
    from ne that have n: "match_records m q attrs ob \<noteq> []" by simp
    then have "set (scores m q attrs ob) \<noteq> {}" by (simp add: scores_def)
    then have "Max (set (scores m q attrs ob)) \<in> set (scores m q attrs ob)"
      by (intro Max_in) simp_all
    with best_attribute_in_attrs[OF n] wd show ?thesis
      by (simp add: best_similarity_def)
  qed
  ultimately show ?thesis by simp
qed

theorem multi_candidate_rating_witness:
  "multi_matches sample_matcher ''awesome'' (1 / 2)
     (weights_dict [''name'', ''category''] None) [''name'', ''category'']
     [item_a, item_b, item_c]
   = Inr [\<lparr>data = item_a, match = 1 / 2, rating = 1 / 2 + (1 / 2 + 0) + 2 / 3, attr = ''name''\<rparr>,
          \<lparr>data = item_b, match = 1, rating = 1 + (0 + 1) + 1 / 3, attr = ''category''\<rparr>]"
  using multi_candidate_rating [of "[item_a, item_b, item_c]" "[''name'', ''category'']"
      sample_matcher "''awesome''" "1 / 2" None]
  by (simp add: item_a_attrs item_b_attrs item_c_attrs best_similarity_items best_attribute_items
      weights_dict_sample scores_def match_records_item_a match_records_item_b
      match_records_item_c)

text \<open>
  C8 (as amended). When the attribute list resolves to a non-empty list and the query has
  tokens, a dataset with an object that lacks a requested attribute makes the whole call
  raise \<open>AttributeError\<close> (the specification's MissingAttributeError) for an attribute that
  this object lacks: the object is not skipped and no list is returned. \<open>bad\<close> is the first
  such object; in the multi-attribute path each object before it is taken to have a
  non-empty requested value.
\<close>

theorem missing_attribute_raises:
  assumes "attributes (resolve self a' l' t' w' m') = Some attrs" and "attrs \<noteq> []"
    and "tokenize U query \<noteq> []"
    and "\<forall>ob\<in>set pre. (\<forall>a\<in>set attrs. ob a \<noteq> None)
           \<and> (length attrs \<noteq> 1 \<longrightarrow> (\<exists>a\<in>set attrs. the (ob a) \<noteq> []))"
    and "\<exists>a\<in>set attrs. bad a = None"
  shows "\<exists>a\<in>set attrs. bad a = None
           \<and> search U self query (pre @ bad # post) a' l' t' w' m' = Inl (AttributeError a)"
proof (cases "length attrs = 1")
  case True
  then obtain a where a: "attrs = [a]" by (cases attrs) auto
  with assms(5) have b: "bad a = None" by simp
  have "search U self query (pre @ bad # post) a' l' t' w' m' = Inl (AttributeError a)"
    using assms(1,3) unfolding a
    by (simp add: search_single_path single_matches_fail_first[of bad a, OF b])
  with a b show ?thesis by simp
next
  case False
  with assms(2) have n: "1 < length attrs" by (cases attrs) auto
  let ?m = "py_or_fun m' (self_matcher self)"
  let ?thr = "py_or_num t' (self_threshold self)"
  let ?wd = "weights_dict attrs (py_or_list w' (self_weights self))"
  from score_obj_fail[OF assms(5), of ?m query ?thr ?wd]
  obtain a where a: "a \<in> set attrs" "bad a = None"
    "score_obj ?m query ?thr ?wd attrs bad = Inl (AttributeError a)" by blast
  have p1: "\<forall>ob\<in>set pre. \<forall>a\<in>set attrs. ob a \<noteq> None" using assms(4) by simp
  have p2: "\<forall>ob\<in>set pre. match_records ?m query attrs ob \<noteq> []"
    using assms(4) False by (simp add: match_records_nonempty)
  have p3: "\<forall>a\<in>set attrs. ?wd a \<noteq> None" by (simp add: weights_dict_defined)
  have "multi_matches ?m query ?thr ?wd attrs (pre @ bad # post) = Inl (AttributeError a)"
    by (rule multi_matches_fail[OF p1 p2 p3 a(3)])
  then have "search U self query (pre @ bad # post) a' l' t' w' m' = Inl (AttributeError a)"
    by (simp add: search_multi_path[OF assms(1) n assms(3)])
  with a show ?thesis by blast
qed

theorem missing_attribute_raises_witness:
  "search sample_utils (sample_engine (Some [''name'', ''category''])) ''awesome''
     [item_a, item_short, item_b] None None None None None = Inl (AttributeError ''category'')
   \<and> search sample_utils (sample_engine (Some [''category''])) ''awesome''
     [item_a, item_short, item_empty] None None None None None = Inl (AttributeError ''category'')"
  using missing_attribute_raises [of "sample_engine (Some [''name'', ''category''])" None None None
      None None "[''name'', ''category'']" sample_utils "''awesome''" "[item_a]" item_short
      "[item_b]"]
    missing_attribute_raises [of "sample_engine (Some [''category''])" None None None
      None None "[''category'']" sample_utils "''awesome''" "[item_a]" item_short
      "[item_empty]"]
  by (simp add: resolve_def py_or_list_def truthy_def sample_engine_fields sample_utils_fields
      sample_tokens item_a_attrs item_short_attrs)

text \<open>
  C8 as stated fails: with a query that has no tokens, a dataset with an object that lacks
  the requested attribute is never read, and the call returns the empty list.
\<close>

theorem missing_attribute_unread_on_empty_query:
  "item_short ''category'' = None
   \<and> search sample_utils (sample_engine (Some [''category''])) ''the is a'' [item_short]
       None None None None None = Inr []"
  by (simp add: search_def resolve_def py_or_list_def truthy_def sample_engine_fields
      sample_utils_fields sample_tokens item_short_attrs)

text \<open>
  C2. The claim: an object whose requested values are all empty is left out of the result
  and the call completes. The code: in the multi-attribute path such an object, reached by
  the loop, leaves \<open>partial_matches\<close> empty, and \<open>max\<close> of line 172 raises \<open>ValueError\<close>; the
  whole call fails.
\<close>

theorem all_empty_values_raise:
  assumes "attributes (resolve self a' l' t' w' m') = Some attrs" and "1 < length attrs"
    and "tokenize U query \<noteq> []"
    and "\<forall>ob\<in>set pre. (\<forall>a\<in>set attrs. ob a \<noteq> None) \<and> (\<exists>a\<in>set attrs. the (ob a) \<noteq> [])"
    and "\<forall>a\<in>set attrs. ob a = Some []"
  shows "search U self query (pre @ ob # post) a' l' t' w' m' =
         Inl (ValueError ''max() arg is an empty sequence'')"
proof -
  let ?m = "py_or_fun m' (self_matcher self)"
  let ?thr = "py_or_num t' (self_threshold self)"
  let ?wd = "weights_dict attrs (py_or_list w' (self_weights self))"
  have p1: "\<forall>ob\<in>set pre. \<forall>a\<in>set attrs. ob a \<noteq> None" using assms(4) by simp
  have p2: "\<forall>ob\<in>set pre. match_records ?m query attrs ob \<noteq> []"
    using assms(4) by (simp add: match_records_nonempty)
  have p3: "\<forall>a\<in>set attrs. ?wd a \<noteq> None" by (simp add: weights_dict_defined)
  have "multi_matches ?m query ?thr ?wd attrs (pre @ ob # post) =
        Inl (ValueError ''max() arg is an empty sequence'')"
    by (rule multi_matches_fail[OF p1 p2 p3 score_obj_all_empty[OF assms(5)]])
  then show ?thesis
    by (simp add: search_multi_path[OF assms(1,2,3)])
qed

theorem all_empty_values_raise_witness:
  "search sample_utils (sample_engine (Some [''name'', ''category''])) ''awesome''
     [item_empty] None None None None None = Inl (ValueError ''max() arg is an empty sequence'')
   \<and> search sample_utils (sample_engine (Some [''name'', ''category''])) ''awesome''
     [item_a, item_empty, item_b] None None None None None =
     Inl (ValueError ''max() arg is an empty sequence'')"
  using all_empty_values_raise [of "sample_engine (Some [''name'', ''category''])" None None None
      None None "[''name'', ''category'']" sample_utils "''awesome''" "[]" item_empty "[]"]
    all_empty_values_raise [of "sample_engine (Some [''name'', ''category''])" None None None
      None None "[''name'', ''category'']" sample_utils "''awesome''" "[item_a]" item_empty
      "[item_b]"]
  by (simp add: resolve_def py_or_list_def truthy_def sample_engine_fields sample_utils_fields
      sample_tokens item_a_attrs item_empty_attrs)

end
